theory Spec2Isabelle
  imports Main
begin

section \<open>Values of the Go program\<close>

text \<open>
  A Go \<^verbatim>\<open>string\<close> and a \<^verbatim>\<open>[]byte\<close> are byte sequences: \<^typ>\<open>string\<close>, whose
  characters are bytes. An \<^verbatim>\<open>error\<close> of \<^verbatim>\<open>travis.go\<close> is made by \<^verbatim>\<open>errors.New\<close> from a
  fixed text, or by \<^verbatim>\<open>fmt.Errorf\<close> from a format and its arguments. A call either returns
  its value, returns an error, or panics.
\<close>

datatype error = errors_New string | fmt_Errorf string "string list"

datatype 'a outcome = Ok 'a | Err error | Panic

text \<open>
  \<^verbatim>\<open>time.Time\<close> is a struct of the standard library. Its value is kept as seconds since
  year 1, nanoseconds and zone offset; the zero value \<^verbatim>\<open>time.Time{}\<close> is all zeros.
\<close>

datatype go_time = Time int nat int

definition zero_time :: go_time where
  "zero_time = Time 0 0 0"

subsection \<open>configKey (travis.go, lines 134-154)\<close>

text \<open>
  The nested anonymous structs of \<^verbatim>\<open>configKey\<close>, innermost first. A slice is an optional
  list: \<^verbatim>\<open>nil\<close> is \<^const>\<open>None\<close>.
\<close>

record configKey_Assets =
  Host :: string

record configKey_Pusher =
  Key :: string

record configKey_Github =
  APIURL :: string
  Scopes :: "string list option"

record configKey_Webhook =
  PublicKey :: string

record configKey_Notifications =
  Webhook :: configKey_Webhook

record configKey_Config =
  Host :: string
  ShortenHost :: string
  Assets :: configKey_Assets
  Pusher :: configKey_Pusher
  Github :: configKey_Github
  Notifications :: configKey_Notifications

record configKey =
  Config :: configKey_Config

text \<open>The zero value of \<^verbatim>\<open>var t configKey\<close>.\<close>

definition zero_configKey :: configKey where
  "zero_configKey =
     \<lparr>configKey.Config =
        \<lparr>configKey_Config.Host = [], ShortenHost = [],
         Assets = \<lparr>configKey_Assets.Host = []\<rparr>,
         Pusher = \<lparr>Key = []\<rparr>,
         Github = \<lparr>APIURL = [], Scopes = None\<rparr>,
         Notifications = \<lparr>Webhook = \<lparr>PublicKey = []\<rparr>\<rparr>\<rparr>\<rparr>"

subsection \<open>Payload, Config, Repository (travis.go, lines 32-79)\<close>

text \<open>A pointer field is an option: \<^verbatim>\<open>nil\<close> is \<^const>\<open>None\<close>.\<close>

record Config =
  Sudo :: bool
  Dist :: string
  Language :: string

record Repository =
  ID :: int
  Name :: string
  OwnerName :: string
  URL :: string

record Payload =
  ID :: int
  Number :: string
  Config :: "Config option"
  Type :: string
  State :: string
  Status :: int
  Result :: int
  StatusMessage :: string
  ResultMessage :: string
  StartedAt :: go_time
  FinishedAt :: go_time
  Duration :: int
  BuildURL :: string
  CommitID :: int
  Commit :: string
  BaseCommit :: string
  HeadCommit :: string
  Branch :: string
  Message :: string
  CompareURL :: string
  CommitedAt :: go_time
  AuthorName :: string
  AuthorEmail :: string
  CommiterName :: string
  CommiterEmail :: string
  PullRequest :: int
  PullRequestNumber :: int
  PullRequestTitle :: string
  Tag :: string
  Repository :: "Repository option"

text \<open>The zero values that \<^verbatim>\<open>new(Payload)\<close>, \<^verbatim>\<open>new(Config)\<close> and \<^verbatim>\<open>new(Repository)\<close> allocate.\<close>

definition zero_Config :: Config where
  "zero_Config = \<lparr>Sudo = False, Dist = [], Language = []\<rparr>"

definition zero_Repository :: Repository where
  "zero_Repository = \<lparr>Repository.ID = 0, Name = [], OwnerName = [], URL = []\<rparr>"

definition zero_Payload :: Payload where
  "zero_Payload = \<lparr>Payload.ID = 0, Number = [], Config = None, Type = [], State = [],
     Status = 0, Result = 0, StatusMessage = [], ResultMessage = [],
     StartedAt = zero_time, FinishedAt = zero_time, Duration = 0, BuildURL = [],
     CommitID = 0, Commit = [], BaseCommit = [], HeadCommit = [], Branch = [],
     Message = [], CompareURL = [], CommitedAt = zero_time, AuthorName = [],
     AuthorEmail = [], CommiterName = [], CommiterEmail = [], PullRequest = 0,
     PullRequestNumber = 0, PullRequestTitle = [], Tag = [], Repository = None\<rparr>"

subsection \<open>The predicates of Payload (travis.go, lines 223-281)\<close>

definition Pending :: "Payload \<Rightarrow> bool" where
  "Pending p = (StatusMessage p = ''Pending'' \<or> ResultMessage p = ''Pending'')"

definition Passed :: "Payload \<Rightarrow> bool" where
  "Passed p = (StatusMessage p = ''Passed'' \<or> ResultMessage p = ''Passed'')"

definition Fixed :: "Payload \<Rightarrow> bool" where
  "Fixed p = (StatusMessage p = ''Fixed'' \<or> ResultMessage p = ''Fixed'')"

definition Broken :: "Payload \<Rightarrow> bool" where
  "Broken p = (StatusMessage p = ''Broken'' \<or> ResultMessage p = ''Broken'')"

definition Failed :: "Payload \<Rightarrow> bool" where
  "Failed p = (StatusMessage p = ''Failed'' \<or> ResultMessage p = ''Failed'')"

definition StillFailing :: "Payload \<Rightarrow> bool" where
  "StillFailing p =
     (StatusMessage p = ''Still Failing'' \<or> ResultMessage p = ''Still Failing'')"

definition Canceled :: "Payload \<Rightarrow> bool" where
  "Canceled p = (StatusMessage p = ''Canceled'' \<or> ResultMessage p = ''Canceled'')"

definition Errored :: "Payload \<Rightarrow> bool" where
  "Errored p = (StatusMessage p = ''Errored'' \<or> ResultMessage p = ''Errored'')"

definition IsPullRequest :: "Payload \<Rightarrow> bool" where
  "IsPullRequest p = (Type p = ''pull_request'')"

definition IsPush :: "Payload \<Rightarrow> bool" where
  "IsPush p = (Type p = ''push'')"

definition IsCron :: "Payload \<Rightarrow> bool" where
  "IsCron p = (Type p = ''cron'')"

definition IsAPI :: "Payload \<Rightarrow> bool" where
  "IsAPI p = (Type p = ''api'')"

section \<open>JSON text, as encoding/json reads it\<close>

text \<open>
  \<^verbatim>\<open>GetPayload\<close>, \<^verbatim>\<open>GetPayloadFromRequest\<close> and \<^verbatim>\<open>travisPublicKey\<close> hand a byte
  sequence to the standard library's \<^verbatim>\<open>encoding/json\<close>. Its scanner is written out
  here as a recursive-descent reader of the same grammar. A string keeps the raw bytes
  between its quotes and a number keeps its literal, since the decoder interprets them
  only when it stores them into a field.
\<close>

datatype json =
    JNull
  | JBool bool
  | JNumber string
  | JString string
  | JArray "json list"
  | JObject "(string \<times> json) list"

definition isSpace :: "char \<Rightarrow> bool" where
  "isSpace c = (c = CHR '' '' \<or> c = CHR 0x09 \<or> c = CHR 0x0D \<or> c = CHR 0x0A)"

definition skipSpace :: "string \<Rightarrow> string" where
  "skipSpace s = dropWhile isSpace s"

definition byte :: "char \<Rightarrow> nat" where
  "byte c = of_char c"

definition between :: "char \<Rightarrow> char \<Rightarrow> char \<Rightarrow> bool" where
  "between lo hi c = (byte lo \<le> byte c \<and> byte c \<le> byte hi)"

definition isDigit :: "char \<Rightarrow> bool" where
  "isDigit c = between (CHR ''0'') (CHR ''9'') c"

definition isHex :: "char \<Rightarrow> bool" where
  "isHex c = (isDigit c \<or> between (CHR ''a'') (CHR ''f'') c \<or> between (CHR ''A'') (CHR ''F'') c)"

text \<open>
  \<open>scanString\<close> reads a string after its opening quote and returns the raw bytes up to the
  closing quote and what follows it. A byte below 0x20 or an escape other than
  \<^verbatim>\<open>\" \\ \/ \b \f \n \r \t \uXXXX\<close> is a syntax error.
\<close>

fun scanString :: "string \<Rightarrow> (string \<times> string) option" where
  "scanString [] = None"
| "scanString (c # cs) =
     (if c = CHR 0x22 then Some ([], cs)
      else if c = CHR 0x5C then
        (case cs of
           [] \<Rightarrow> None
         | e # es \<Rightarrow>
             if e \<in> set [CHR ''b'', CHR ''f'', CHR ''n'', CHR ''r'', CHR ''t'', CHR 0x5C, CHR ''/'', CHR 0x22]
             then map_option (\<lambda>(b, r). (c # e # b, r)) (scanString es)
             else if e = CHR ''u'' then
               (case es of
                  h1 # h2 # h3 # h4 # r4 \<Rightarrow>
                    if isHex h1 \<and> isHex h2 \<and> isHex h3 \<and> isHex h4
                    then map_option (\<lambda>(b, r). (c # e # h1 # h2 # h3 # h4 # b, r)) (scanString r4)
                    else None
                | _ \<Rightarrow> None)
             else None)
      else if byte c < 0x20 then None
      else map_option (\<lambda>(b, r). (c # b, r)) (scanString cs))"

text \<open>
  A number is \<^verbatim>\<open>-? (0 | [1-9][0-9]*) (. [0-9]+)? ([eE] [+-]? [0-9]+)?\<close>. The scanner does
  not backtrack: after \<^verbatim>\<open>.\<close> or \<^verbatim>\<open>e\<close> a digit must follow.
\<close>

definition scanExp :: "string \<Rightarrow> string \<Rightarrow> (string \<times> string) option" where
  "scanExp acc s =
     (case s of
        [] \<Rightarrow> Some (acc, s)
      | c # cs \<Rightarrow>
          if c = CHR ''e'' \<or> c = CHR ''E'' then
            (let (sg, r) = (case cs of
                              [] \<Rightarrow> ([], cs)
                            | x # xs \<Rightarrow> if x = CHR ''+'' \<or> x = CHR ''-'' then ([x], xs) else ([], cs))
             in if takeWhile isDigit r = [] then None
                else Some (acc @ c # sg @ takeWhile isDigit r, dropWhile isDigit r))
          else Some (acc, s))"

definition scanFrac :: "string \<Rightarrow> string \<Rightarrow> (string \<times> string) option" where
  "scanFrac acc s =
     (case s of
        [] \<Rightarrow> scanExp acc s
      | c # cs \<Rightarrow>
          if c = CHR ''.'' then
            (if takeWhile isDigit cs = [] then None
             else scanExp (acc @ c # takeWhile isDigit cs) (dropWhile isDigit cs))
          else scanExp acc s)"

definition scanNumber :: "string \<Rightarrow> (string \<times> string) option" where
  "scanNumber s =
     (let (sg, r) = (case s of
                       [] \<Rightarrow> ([], s)
                     | x # xs \<Rightarrow> if x = CHR ''-'' then ([x], xs) else ([], s))
      in case r of
           [] \<Rightarrow> None
         | d # ds \<Rightarrow>
             if d = CHR ''0'' then scanFrac (sg @ [d]) ds
             else if isDigit d then scanFrac (sg @ d # takeWhile isDigit ds) (dropWhile isDigit ds)
             else None)"

text \<open>The scanner refuses a value nested deeper than 10000 arrays and objects.\<close>

definition maxNestingDepth :: nat where
  "maxNestingDepth = 10000"

text \<open>
  \<open>scanValue n d s\<close> reads the first JSON value of \<open>s\<close>, after white space, inside \<open>d\<close>
  open arrays and objects, and returns it with the bytes that follow it; \<open>n\<close> bounds the
  number of nested calls. \<open>scanElements\<close> reads an array after \<^verbatim>\<open>[\<close> or \<^verbatim>\<open>,\<close> and
  \<open>scanMembers\<close> an object after \<^verbatim>\<open>{\<close> or \<^verbatim>\<open>,\<close>.
\<close>

fun scanValue :: "nat \<Rightarrow> nat \<Rightarrow> string \<Rightarrow> (json \<times> string) option"
  and scanElements :: "nat \<Rightarrow> nat \<Rightarrow> string \<Rightarrow> (json list \<times> string) option"
  and scanMembers :: "nat \<Rightarrow> nat \<Rightarrow> string \<Rightarrow> ((string \<times> json) list \<times> string) option"
where
  "scanValue 0 d s = None"
| "scanValue (Suc n) d s =
     (case skipSpace s of
        [] \<Rightarrow> None
      | c # cs \<Rightarrow>
          if c = CHR ''{'' then
            (if maxNestingDepth \<le> d then None
             else case skipSpace cs of
                    [] \<Rightarrow> None
                  | x # xs \<Rightarrow>
                      if x = CHR ''}'' then Some (JObject [], xs)
                      else map_option (\<lambda>(ms, r). (JObject ms, r)) (scanMembers n (Suc d) cs))
          else if c = CHR ''['' then
            (if maxNestingDepth \<le> d then None
             else case skipSpace cs of
                    [] \<Rightarrow> None
                  | x # xs \<Rightarrow>
                      if x = CHR '']'' then Some (JArray [], xs)
                      else map_option (\<lambda>(vs, r). (JArray vs, r)) (scanElements n (Suc d) cs))
          else if c = CHR 0x22 then map_option (\<lambda>(b, r). (JString b, r)) (scanString cs)
          else if c = CHR ''-'' \<or> isDigit c then
            map_option (\<lambda>(l, r). (JNumber l, r)) (scanNumber (c # cs))
          else if c = CHR ''t'' then
            (if take 3 cs = ''rue'' then Some (JBool True, drop 3 cs) else None)
          else if c = CHR ''f'' then
            (if take 4 cs = ''alse'' then Some (JBool False, drop 4 cs) else None)
          else if c = CHR ''n'' then
            (if take 3 cs = ''ull'' then Some (JNull, drop 3 cs) else None)
          else None)"
| "scanElements 0 d s = None"
| "scanElements (Suc n) d s =
     (case scanValue n d s of
        None \<Rightarrow> None
      | Some (v, r) \<Rightarrow>
          (case skipSpace r of
             [] \<Rightarrow> None
           | c # cs \<Rightarrow>
               if c = CHR '','' then map_option (\<lambda>(vs, r'). (v # vs, r')) (scanElements n d cs)
               else if c = CHR '']'' then Some ([v], cs)
               else None))"
| "scanMembers 0 d s = None"
| "scanMembers (Suc n) d s =
     (case skipSpace s of
        [] \<Rightarrow> None
      | q # qs \<Rightarrow>
          if q \<noteq> CHR 0x22 then None
          else case scanString qs of
                 None \<Rightarrow> None
               | Some (k, r) \<Rightarrow>
                   (case skipSpace r of
                      [] \<Rightarrow> None
                    | c # cs \<Rightarrow>
                        if c \<noteq> CHR '':'' then None
                        else case scanValue n d cs of
                               None \<Rightarrow> None
                             | Some (v, r') \<Rightarrow>
                                 (case skipSpace r' of
                                    [] \<Rightarrow> None
                                  | e # es \<Rightarrow>
                                      if e = CHR '','' then
                                        map_option (\<lambda>(ms, r''). ((k, v) # ms, r'')) (scanMembers n d es)
                                      else if e = CHR ''}'' then Some ([(k, v)], es)
                                      else None)))"

text \<open>
  Every nested call comes after at most one call that reads no byte, so twice the length
  of the input is enough.
\<close>

definition scanFirst :: "string \<Rightarrow> (json \<times> string) option" where
  "scanFirst s = scanValue (2 * length s + 2) 0 s"

text \<open>
  \<^verbatim>\<open>json.NewDecoder(r).Decode\<close> reads the first value of the stream and stops there: the
  bytes after it are left unread. \<^verbatim>\<open>json.Unmarshal\<close> first checks that the whole input
  is one value with white space around it.
\<close>

definition Decoder_readValue :: "string \<Rightarrow> json option" where
  "Decoder_readValue s = map_option fst (scanFirst s)"

definition checkValid :: "string \<Rightarrow> json option" where
  "checkValid s =
     (case scanFirst s of
        None \<Rightarrow> None
      | Some (v, r) \<Rightarrow> if skipSpace r = [] then Some v else None)"

subsection \<open>Storing a JSON value into a Go field\<close>

text \<open>
  \<open>unquote\<close> turns the raw bytes of a scanned string into the Go string: escapes are
  replaced, \<^verbatim>\<open>\uXXXX\<close> becomes the UTF-8 encoding of the code point (a surrogate pair
  becomes one code point, a lone surrogate U+FFFD), and a byte that does not start a valid
  UTF-8 sequence becomes U+FFFD.
\<close>

definition hexval :: "char \<Rightarrow> nat" where
  "hexval c =
     (if isDigit c then byte c - byte (CHR ''0'')
      else if between (CHR ''a'') (CHR ''f'') c then byte c - byte (CHR ''a'') + 10
      else byte c - byte (CHR ''A'') + 10)"

definition getu4 :: "string \<Rightarrow> nat option" where
  "getu4 s =
     (case s of
        b # u # h1 # h2 # h3 # h4 # _ \<Rightarrow>
          if b = CHR 0x5C \<and> u = CHR ''u'' \<and> isHex h1 \<and> isHex h2 \<and> isHex h3 \<and> isHex h4
          then Some (((hexval h1 * 16 + hexval h2) * 16 + hexval h3) * 16 + hexval h4)
          else None
      | _ \<Rightarrow> None)"

definition RuneError :: nat where
  "RuneError = 0xFFFD"

definition isSurrogate :: "nat \<Rightarrow> bool" where
  "isSurrogate r = (0xD800 \<le> r \<and> r < 0xE000)"

definition EncodeRune :: "nat \<Rightarrow> string" where
  "EncodeRune r =
     (if r < 0x80 then [char_of r]
      else if r < 0x800 then [char_of (0xC0 + r div 64), char_of (0x80 + r mod 64)]
      else if isSurrogate r \<or> 0x10FFFF < r then [CHR 0xEF, CHR 0xBF, CHR 0xBD]
      else if r < 0x10000 then
        [char_of (0xE0 + r div 4096), char_of (0x80 + r div 64 mod 64), char_of (0x80 + r mod 64)]
      else
        [char_of (0xF0 + r div 262144), char_of (0x80 + r div 4096 mod 64),
         char_of (0x80 + r div 64 mod 64), char_of (0x80 + r mod 64)])"

definition utf16_DecodeRune :: "nat \<Rightarrow> nat option \<Rightarrow> nat" where
  "utf16_DecodeRune r1 r2 =
     (case r2 of
        None \<Rightarrow> RuneError
      | Some r \<Rightarrow>
          if 0xD800 \<le> r1 \<and> r1 < 0xDC00 \<and> 0xDC00 \<le> r \<and> r < 0xE000
          then (r1 - 0xD800) * 1024 + (r - 0xDC00) + 0x10000
          else RuneError)"

text \<open>
  \<open>runeLen s\<close> is the length of the valid UTF-8 sequence at the front of \<open>s\<close>, and 0 when
  there is none (\<^verbatim>\<open>utf8.DecodeRune\<close> then returns U+FFFD with size 1).
\<close>

definition inRange :: "nat \<Rightarrow> nat \<Rightarrow> char \<Rightarrow> bool" where
  "inRange lo hi c = (lo \<le> byte c \<and> byte c \<le> hi)"

definition runeLen :: "string \<Rightarrow> nat" where
  "runeLen s =
     (case s of
        [] \<Rightarrow> 0
      | c # cs \<Rightarrow>
          if byte c < 0x80 then 1
          else if inRange 0xC2 0xDF c then
            (case cs of c1 # _ \<Rightarrow> if inRange 0x80 0xBF c1 then 2 else 0 | _ \<Rightarrow> 0)
          else if inRange 0xE0 0xEF c then
            (case cs of
               c1 # c2 # _ \<Rightarrow>
                 if inRange (if byte c = 0xE0 then 0xA0 else 0x80)
                            (if byte c = 0xED then 0x9F else 0xBF) c1 \<and> inRange 0x80 0xBF c2
                 then 3 else 0
             | _ \<Rightarrow> 0)
          else if inRange 0xF0 0xF4 c then
            (case cs of
               c1 # c2 # c3 # _ \<Rightarrow>
                 if inRange (if byte c = 0xF0 then 0x90 else 0x80)
                            (if byte c = 0xF4 then 0x8F else 0xBF) c1
                    \<and> inRange 0x80 0xBF c2 \<and> inRange 0x80 0xBF c3
                 then 4 else 0
             | _ \<Rightarrow> 0)
          else 0)"

definition unescape :: "char \<Rightarrow> char" where
  "unescape e =
     (if e = CHR ''b'' then CHR 0x08
      else if e = CHR ''f'' then CHR 0x0C
      else if e = CHR ''n'' then CHR 0x0A
      else if e = CHR ''r'' then CHR 0x0D
      else if e = CHR ''t'' then CHR 0x09
      else e)"

function unquote :: "string \<Rightarrow> string" where
  "unquote [] = []"
| "unquote (c # cs) =
     (if c = CHR 0x5C then
        (case cs of
           [] \<Rightarrow> []
         | e # es \<Rightarrow>
             if e = CHR ''u'' then
               (case getu4 (c # cs) of
                  None \<Rightarrow> []
                | Some rr \<Rightarrow>
                    if isSurrogate rr then
                      (if utf16_DecodeRune rr (getu4 (drop 4 es)) \<noteq> RuneError
                       then EncodeRune (utf16_DecodeRune rr (getu4 (drop 4 es))) @ unquote (drop 10 es)
                       else EncodeRune RuneError @ unquote (drop 4 es))
                    else EncodeRune rr @ unquote (drop 4 es))
             else unescape e # unquote es)
      else if byte c < 0x80 then c # unquote cs
      else if runeLen (c # cs) = 0 then EncodeRune RuneError @ unquote cs
      else take (runeLen (c # cs)) (c # cs) @ unquote (drop (runeLen (c # cs)) (c # cs)))"
  by pat_completeness auto
termination
  by (relation "measure length") auto

text \<open>
  \<^verbatim>\<open>strconv.ParseInt(s, 10, 64)\<close>: an optional sign, decimal digits, and a value that fits
  64 bits. A literal with a fraction or an exponent is refused.
\<close>

definition digitsValue :: "string \<Rightarrow> int" where
  "digitsValue ds = foldl (\<lambda>a c. 10 * a + (int (byte c) - int (byte (CHR ''0'')))) 0 ds"

definition ParseInt :: "string \<Rightarrow> int option" where
  "ParseInt s =
     (let (neg, ds) = (case s of
                         [] \<Rightarrow> (False, s)
                       | c # cs \<Rightarrow>
                           if c = CHR ''-'' then (True, cs)
                           else if c = CHR ''+'' then (False, cs)
                           else (False, s));
          n = (if neg then - digitsValue ds else digitsValue ds)
      in if ds = [] \<or> \<not> list_all isDigit ds then None
         else if - (2 ^ 63) \<le> n \<and> n < 2 ^ 63 then Some n
         else None)"

text \<open>
  What the decoder does with a value for a field of each kind; the second argument is the
  field's present value. \<^verbatim>\<open>null\<close> leaves a field that is not a pointer unchanged, a value
  of the wrong kind is an error. \<^verbatim>\<open>int\<close> has 64 bits, as \<^verbatim>\<open>int64\<close> has. A
  \<^verbatim>\<open>time.Time\<close> is read by its own \<^verbatim>\<open>UnmarshalJSON\<close>, which is given the raw string.
\<close>

definition storeString :: "json \<Rightarrow> string \<Rightarrow> string option" where
  "storeString v old =
     (case v of JNull \<Rightarrow> Some old | JString raw \<Rightarrow> Some (unquote raw) | _ \<Rightarrow> None)"

definition storeInt :: "json \<Rightarrow> int \<Rightarrow> int option" where
  "storeInt v old =
     (case v of JNull \<Rightarrow> Some old | JNumber lit \<Rightarrow> ParseInt lit | _ \<Rightarrow> None)"

definition storeBool :: "json \<Rightarrow> bool \<Rightarrow> bool option" where
  "storeBool v old =
     (case v of JNull \<Rightarrow> Some old | JBool b \<Rightarrow> Some b | _ \<Rightarrow> None)"

definition storeTime :: "(string \<Rightarrow> go_time option) \<Rightarrow> json \<Rightarrow> go_time \<Rightarrow> go_time option" where
  "storeTime time_UnmarshalJSON v old =
     (case v of JNull \<Rightarrow> Some old | JString raw \<Rightarrow> time_UnmarshalJSON raw | _ \<Rightarrow> None)"

text \<open>
  A struct field is found by its JSON name, letter case ignored. Under Unicode simple
  folding the Kelvin sign U+212A is a \<^verbatim>\<open>k\<close> and the long s U+017F an \<^verbatim>\<open>s\<close>; no other
  character outside ASCII folds to a character of the names used here.
\<close>

fun foldName :: "string \<Rightarrow> string" where
  "foldName [] = []"
| "foldName (c # cs) =
     (if between (CHR ''a'') (CHR ''z'') c then char_of (byte c - 32) # foldName cs
      else if take 3 (c # cs) = [CHR 0xE2, CHR 0x84, CHR 0xAA] then CHR ''K'' # foldName (drop 2 cs)
      else if take 2 (c # cs) = [CHR 0xC5, CHR 0xBF] then CHR ''S'' # foldName (drop 1 cs)
      else c # foldName cs)"

definition findField :: "(string \<times> 'f) list \<Rightarrow> string \<Rightarrow> 'f option" where
  "findField flds k = map_of (map (\<lambda>(name, f). (foldName name, f)) flds) (foldName k)"

text \<open>
  An object is stored into a struct member by member, in the order of the text: the key is
  unquoted, a key that names no field is skipped, and the first error ends the decoding.
  \<open>flds\<close> lists the struct's fields: the JSON name of each and how a value is stored
  into it.
\<close>

fun decodeStruct ::
  "(string \<times> (json \<Rightarrow> 'r \<Rightarrow> 'r option)) list \<Rightarrow> (string \<times> json) list \<Rightarrow> 'r \<Rightarrow> 'r option"
where
  "decodeStruct flds [] r = Some r"
| "decodeStruct flds ((k, v) # ms) r =
     (case findField flds (unquote k) of
        None \<Rightarrow> decodeStruct flds ms r
      | Some store \<Rightarrow>
          (case store v r of
             None \<Rightarrow> None
           | Some r' \<Rightarrow> decodeStruct flds ms r'))"

text \<open>A field that is itself a struct takes an object, and \<^verbatim>\<open>null\<close> leaves it unchanged.\<close>

definition storeStruct ::
  "((string \<times> json) list \<Rightarrow> 'r \<Rightarrow> 'r option) \<Rightarrow> json \<Rightarrow> 'r \<Rightarrow> 'r option" where
  "storeStruct decode v old =
     (case v of JNull \<Rightarrow> Some old | JObject ms \<Rightarrow> decode ms old | _ \<Rightarrow> None)"

text \<open>
  A field that points to a struct: \<^verbatim>\<open>null\<close> sets it to \<^verbatim>\<open>nil\<close>; an object is stored into
  the struct it points to, which is allocated with zero fields when the pointer is \<^verbatim>\<open>nil\<close>.
\<close>

definition storePointer ::
  "'r \<Rightarrow> ((string \<times> json) list \<Rightarrow> 'r \<Rightarrow> 'r option) \<Rightarrow> json \<Rightarrow> 'r option \<Rightarrow> 'r option option" where
  "storePointer zero decode v old =
     (case v of
        JNull \<Rightarrow> Some None
      | JObject ms \<Rightarrow> map_option Some (decode ms (case old of None \<Rightarrow> zero | Some r \<Rightarrow> r))
      | _ \<Rightarrow> None)"

subsection \<open>Writing a struct as JSON\<close>

text \<open>
  \<^verbatim>\<open>json.Marshal\<close> writes a struct's fields in the order of their declaration. The values
  it writes for the structs of this package are these. A field tagged \<^verbatim>\<open>omitempty\<close> is
  left out when it is \<^verbatim>\<open>false\<close>, 0, a \<^verbatim>\<open>nil\<close> pointer or an empty string; a struct such
  as \<^verbatim>\<open>time.Time\<close> is never empty, and its \<^verbatim>\<open>MarshalJSON\<close> may fail.
\<close>

datatype jvalue =
    VBool bool
  | VInt int
  | VString string
  | VObject "(string \<times> jvalue) list"

datatype emitted = EncError | Omit | Emit jvalue

definition omitString :: "string \<Rightarrow> emitted" where
  "omitString s = (if s = [] then Omit else Emit (VString s))"

definition omitInt :: "int \<Rightarrow> emitted" where
  "omitInt n = (if n = 0 then Omit else Emit (VInt n))"

definition omitBool :: "bool \<Rightarrow> emitted" where
  "omitBool b = (if b then Emit (VBool b) else Omit)"

definition emitTime :: "(go_time \<Rightarrow> string option) \<Rightarrow> go_time \<Rightarrow> emitted" where
  "emitTime time_MarshalJSON t =
     (case time_MarshalJSON t of None \<Rightarrow> EncError | Some s \<Rightarrow> Emit (VString s))"

fun encodeStruct :: "(string \<times> ('r \<Rightarrow> emitted)) list \<Rightarrow> 'r \<Rightarrow> (string \<times> jvalue) list option"
where
  "encodeStruct [] r = Some []"
| "encodeStruct ((name, emit) # flds) r =
     (case emit r of
        EncError \<Rightarrow> None
      | Omit \<Rightarrow> encodeStruct flds r
      | Emit v \<Rightarrow> map_option (\<lambda>ms. (name, v) # ms) (encodeStruct flds r))"

definition omitPointer :: "('r \<Rightarrow> (string \<times> jvalue) list option) \<Rightarrow> 'r option \<Rightarrow> emitted" where
  "omitPointer encode ptr =
     (case ptr of
        None \<Rightarrow> Omit
      | Some r \<Rightarrow> (case encode r of None \<Rightarrow> EncError | Some ms \<Rightarrow> Emit (VObject ms)))"

text \<open>
  A slice of strings takes an array, element by element; \<^verbatim>\<open>null\<close> sets it to \<^verbatim>\<open>nil\<close>.
\<close>

fun storeElems :: "json list \<Rightarrow> string list \<Rightarrow> string list option" where
  "storeElems [] olds = Some []"
| "storeElems (v # vs) olds =
     (case storeString v (case olds of [] \<Rightarrow> [] | x # _ \<Rightarrow> x) of
        None \<Rightarrow> None
      | Some x \<Rightarrow> map_option (\<lambda>xs. x # xs) (storeElems vs (tl olds)))"

definition storeStrings :: "json \<Rightarrow> string list option \<Rightarrow> string list option option" where
  "storeStrings v old =
     (case v of
        JNull \<Rightarrow> Some None
      | JArray vs \<Rightarrow> map_option Some (storeElems vs (case old of None \<Rightarrow> [] | Some xs \<Rightarrow> xs))
      | _ \<Rightarrow> None)"

text \<open>
  One line of a struct declaration: the field's JSON name, how it is read and written in
  the struct, how a JSON value is stored into it and what the encoder writes for it.
\<close>

type_synonym 'r field = "string \<times> (json \<Rightarrow> 'r \<Rightarrow> 'r option) \<times> ('r \<Rightarrow> emitted)"

definition field ::
  "string \<Rightarrow> ('r \<Rightarrow> 'a) \<Rightarrow> ('a \<Rightarrow> 'r \<Rightarrow> 'r) \<Rightarrow> (json \<Rightarrow> 'a \<Rightarrow> 'a option) \<Rightarrow> ('a \<Rightarrow> emitted) \<Rightarrow> 'r field" where
  "field name getter setter store emit =
     (name, (\<lambda>v r. map_option (\<lambda>x. setter x r) (store v (getter r))), (\<lambda>r. emit (getter r)))"

definition decoders :: "'r field list \<Rightarrow> (string \<times> (json \<Rightarrow> 'r \<Rightarrow> 'r option)) list" where
  "decoders flds = map (\<lambda>(name, store, emit). (name, store)) flds"

definition encoders :: "'r field list \<Rightarrow> (string \<times> ('r \<Rightarrow> emitted)) list" where
  "encoders flds = map (\<lambda>(name, store, emit). (name, emit)) flds"

subsection \<open>The JSON form of Config, Repository and Payload (the struct tags, lines 33-79)\<close>

definition Config_fields :: "Config field list" where
  "Config_fields =
     [field ''sudo'' Sudo (\<lambda>x c. c\<lparr>Sudo := x\<rparr>) storeBool omitBool,
      field ''dist'' Dist (\<lambda>x c. c\<lparr>Dist := x\<rparr>) storeString omitString,
      field ''language'' Language (\<lambda>x c. c\<lparr>Language := x\<rparr>) storeString omitString]"

definition Repository_fields :: "Repository field list" where
  "Repository_fields =
     [field ''id'' Repository.ID (\<lambda>x r. r\<lparr>Repository.ID := x\<rparr>) storeInt omitInt,
      field ''name'' Name (\<lambda>x r. r\<lparr>Name := x\<rparr>) storeString omitString,
      field ''owner_name'' OwnerName (\<lambda>x r. r\<lparr>OwnerName := x\<rparr>) storeString omitString,
      field ''url'' URL (\<lambda>x r. r\<lparr>URL := x\<rparr>) storeString omitString]"

text \<open>
  The two functions of \<^verbatim>\<open>time.Time\<close> that the JSON package calls are parameters:
  \<open>tu\<close> is \<^verbatim>\<open>UnmarshalJSON\<close> on the raw string, \<open>tm\<close> is \<^verbatim>\<open>MarshalJSON\<close>.
\<close>

definition Payload_fields ::
  "(string \<Rightarrow> go_time option) \<Rightarrow> (go_time \<Rightarrow> string option) \<Rightarrow> Payload field list" where
  "Payload_fields tu tm =
     [field ''id'' Payload.ID (\<lambda>x p. p\<lparr>Payload.ID := x\<rparr>) storeInt omitInt,
      field ''number'' Number (\<lambda>x p. p\<lparr>Number := x\<rparr>) storeString omitString,
      field ''config'' Config (\<lambda>x p. p\<lparr>Config := x\<rparr>)
        (storePointer zero_Config (decodeStruct (decoders Config_fields)))
        (omitPointer (encodeStruct (encoders Config_fields))),
      field ''type'' Type (\<lambda>x p. p\<lparr>Type := x\<rparr>) storeString omitString,
      field ''state'' State (\<lambda>x p. p\<lparr>State := x\<rparr>) storeString omitString,
      field ''status'' Status (\<lambda>x p. p\<lparr>Status := x\<rparr>) storeInt omitInt,
      field ''result'' Result (\<lambda>x p. p\<lparr>Result := x\<rparr>) storeInt omitInt,
      field ''status_message'' StatusMessage (\<lambda>x p. p\<lparr>StatusMessage := x\<rparr>) storeString omitString,
      field ''result_message'' ResultMessage (\<lambda>x p. p\<lparr>ResultMessage := x\<rparr>) storeString omitString,
      field ''started_at'' StartedAt (\<lambda>x p. p\<lparr>StartedAt := x\<rparr>) (storeTime tu) (emitTime tm),
      field ''finished_at'' FinishedAt (\<lambda>x p. p\<lparr>FinishedAt := x\<rparr>) (storeTime tu) (emitTime tm),
      field ''duration'' Duration (\<lambda>x p. p\<lparr>Duration := x\<rparr>) storeInt omitInt,
      field ''build_url'' BuildURL (\<lambda>x p. p\<lparr>BuildURL := x\<rparr>) storeString omitString,
      field ''commit_id'' CommitID (\<lambda>x p. p\<lparr>CommitID := x\<rparr>) storeInt omitInt,
      field ''commit'' Commit (\<lambda>x p. p\<lparr>Commit := x\<rparr>) storeString omitString,
      field ''base_commit'' BaseCommit (\<lambda>x p. p\<lparr>BaseCommit := x\<rparr>) storeString omitString,
      field ''head_commit'' HeadCommit (\<lambda>x p. p\<lparr>HeadCommit := x\<rparr>) storeString omitString,
      field ''branch'' Branch (\<lambda>x p. p\<lparr>Branch := x\<rparr>) storeString omitString,
      field ''message'' Message (\<lambda>x p. p\<lparr>Message := x\<rparr>) storeString omitString,
      field ''compare_url'' CompareURL (\<lambda>x p. p\<lparr>CompareURL := x\<rparr>) storeString omitString,
      field ''commited_at'' CommitedAt (\<lambda>x p. p\<lparr>CommitedAt := x\<rparr>) (storeTime tu) (emitTime tm),
      field ''author_name'' AuthorName (\<lambda>x p. p\<lparr>AuthorName := x\<rparr>) storeString omitString,
      field ''author_email'' AuthorEmail (\<lambda>x p. p\<lparr>AuthorEmail := x\<rparr>) storeString omitString,
      field ''commiter_name'' CommiterName (\<lambda>x p. p\<lparr>CommiterName := x\<rparr>) storeString omitString,
      field ''commiter_email'' CommiterEmail (\<lambda>x p. p\<lparr>CommiterEmail := x\<rparr>) storeString omitString,
      field ''pull_request'' PullRequest (\<lambda>x p. p\<lparr>PullRequest := x\<rparr>) storeInt omitInt,
      field ''pull_request_number'' PullRequestNumber (\<lambda>x p. p\<lparr>PullRequestNumber := x\<rparr>) storeInt omitInt,
      field ''pull_request_title'' PullRequestTitle (\<lambda>x p. p\<lparr>PullRequestTitle := x\<rparr>) storeString omitString,
      field ''tag'' Tag (\<lambda>x p. p\<lparr>Tag := x\<rparr>) storeString omitString,
      field ''repository'' Repository (\<lambda>x p. p\<lparr>Repository := x\<rparr>)
        (storePointer zero_Repository (decodeStruct (decoders Repository_fields)))
        (omitPointer (encodeStruct (encoders Repository_fields)))]"

text \<open>
  Decoding into \<^verbatim>\<open>p := new(Payload)\<close>: an object is stored field by field, \<^verbatim>\<open>null\<close>
  leaves the struct as it is, any other value is an error.
\<close>

definition unmarshal_Payload ::
  "(string \<Rightarrow> go_time option) \<Rightarrow> (go_time \<Rightarrow> string option) \<Rightarrow> json \<Rightarrow> Payload option" where
  "unmarshal_Payload tu tm v =
     storeStruct (decodeStruct (decoders (Payload_fields tu tm))) v zero_Payload"


subsection \<open>The JSON form of configKey\<close>

definition dfield ::
  "string \<Rightarrow> ('r \<Rightarrow> 'a) \<Rightarrow> ('a \<Rightarrow> 'r \<Rightarrow> 'r) \<Rightarrow> (json \<Rightarrow> 'a \<Rightarrow> 'a option) \<Rightarrow> string \<times> (json \<Rightarrow> 'r \<Rightarrow> 'r option)" where
  "dfield name getter setter store =
     (name, (\<lambda>v r. map_option (\<lambda>x. setter x r) (store v (getter r))))"

definition configKey_Assets_fields :: "(string \<times> (json \<Rightarrow> configKey_Assets \<Rightarrow> configKey_Assets option)) list" where
  "configKey_Assets_fields =
     [dfield ''host'' configKey_Assets.Host (\<lambda>x r. r\<lparr>configKey_Assets.Host := x\<rparr>) storeString]"

definition configKey_Pusher_fields :: "(string \<times> (json \<Rightarrow> configKey_Pusher \<Rightarrow> configKey_Pusher option)) list" where
  "configKey_Pusher_fields = [dfield ''key'' Key (\<lambda>x r. r\<lparr>Key := x\<rparr>) storeString]"

definition configKey_Github_fields :: "(string \<times> (json \<Rightarrow> configKey_Github \<Rightarrow> configKey_Github option)) list" where
  "configKey_Github_fields =
     [dfield ''api_url'' APIURL (\<lambda>x r. r\<lparr>APIURL := x\<rparr>) storeString,
      dfield ''scopes'' Scopes (\<lambda>x r. r\<lparr>Scopes := x\<rparr>) storeStrings]"

definition configKey_Webhook_fields :: "(string \<times> (json \<Rightarrow> configKey_Webhook \<Rightarrow> configKey_Webhook option)) list" where
  "configKey_Webhook_fields = [dfield ''public_key'' PublicKey (\<lambda>x r. r\<lparr>PublicKey := x\<rparr>) storeString]"

definition configKey_Notifications_fields ::
  "(string \<times> (json \<Rightarrow> configKey_Notifications \<Rightarrow> configKey_Notifications option)) list" where
  "configKey_Notifications_fields =
     [dfield ''webhook'' Webhook (\<lambda>x r. r\<lparr>Webhook := x\<rparr>)
        (storeStruct (decodeStruct configKey_Webhook_fields))]"

definition configKey_Config_fields :: "(string \<times> (json \<Rightarrow> configKey_Config \<Rightarrow> configKey_Config option)) list" where
  "configKey_Config_fields =
     [dfield ''host'' configKey_Config.Host (\<lambda>x r. r\<lparr>configKey_Config.Host := x\<rparr>) storeString,
      dfield ''shorten_host'' ShortenHost (\<lambda>x r. r\<lparr>ShortenHost := x\<rparr>) storeString,
      dfield ''assets'' Assets (\<lambda>x r. r\<lparr>Assets := x\<rparr>)
        (storeStruct (decodeStruct configKey_Assets_fields)),
      dfield ''pusher'' Pusher (\<lambda>x r. r\<lparr>Pusher := x\<rparr>)
        (storeStruct (decodeStruct configKey_Pusher_fields)),
      dfield ''github'' Github (\<lambda>x r. r\<lparr>Github := x\<rparr>)
        (storeStruct (decodeStruct configKey_Github_fields)),
      dfield ''notifications'' Notifications (\<lambda>x r. r\<lparr>Notifications := x\<rparr>)
        (storeStruct (decodeStruct configKey_Notifications_fields))]"

definition configKey_fields :: "(string \<times> (json \<Rightarrow> configKey \<Rightarrow> configKey option)) list" where
  "configKey_fields =
     [dfield ''config'' configKey.Config (\<lambda>x r. r\<lparr>configKey.Config := x\<rparr>)
        (storeStruct (decodeStruct configKey_Config_fields))]"

definition unmarshal_configKey :: "json \<Rightarrow> configKey option" where
  "unmarshal_configKey v = storeStruct (decodeStruct configKey_fields) v zero_configKey"

section \<open>The functions of travis.go\<close>

subsection \<open>What the program takes from other packages\<close>

text \<open>
  An RSA public key is its modulus and exponent. \<^verbatim>\<open>x509.ParsePKIXPublicKey\<close> returns a
  key of one of several types, with its key material.
\<close>

record rsa_PublicKey =
  N :: int
  E :: int

datatype pkix_key =
    RSA_PublicKey rsa_PublicKey
  | DSA_PublicKey string
  | ECDSA_PublicKey string
  | Ed25519_PublicKey string
  | ECDH_PublicKey string

record pem_Block =
  pem_Type :: string
  pem_Bytes :: string

datatype crypto_Hash = MD5 | SHA1 | SHA256

text \<open>
  The library functions whose results the program only passes on are parameters of the
  model: \<^verbatim>\<open>time.Time\<close>'s JSON methods, \<^verbatim>\<open>pem.Decode\<close> (the block, when there is one),
  \<^verbatim>\<open>x509.ParsePKIXPublicKey\<close>, the SHA-1 digest and \<^verbatim>\<open>rsa.VerifyPKCS1v15\<close> (true when
  it returns no error).
\<close>

record lib =
  time_UnmarshalJSON :: "string \<Rightarrow> go_time option"
  time_MarshalJSON :: "go_time \<Rightarrow> string option"
  pem_Decode :: "string \<Rightarrow> pem_Block option"
  x509_ParsePKIXPublicKey :: "string \<Rightarrow> pkix_key option"
  sha1_Sum :: "string \<Rightarrow> string"
  rsa_VerifyPKCS1v15 :: "rsa_PublicKey \<Rightarrow> crypto_Hash \<Rightarrow> string \<Rightarrow> string \<Rightarrow> bool"

text \<open>
  \<^verbatim>\<open>base64.StdEncoding.DecodeString\<close>: line breaks are ignored; what is left is read four
  characters at a time, and only the last four may end in padding.
\<close>

definition b64index :: "char \<Rightarrow> nat option" where
  "b64index c =
     (if between (CHR ''A'') (CHR ''Z'') c then Some (byte c - byte (CHR ''A''))
      else if between (CHR ''a'') (CHR ''z'') c then Some (byte c - byte (CHR ''a'') + 26)
      else if isDigit c then Some (byte c - byte (CHR ''0'') + 52)
      else if c = CHR ''+'' then Some 62
      else if c = CHR ''/'' then Some 63
      else None)"

definition quantum :: "nat \<Rightarrow> nat \<Rightarrow> nat \<Rightarrow> nat \<Rightarrow> string" where
  "quantum x0 x1 x2 x3 =
     (let val = ((x0 * 64 + x1) * 64 + x2) * 64 + x3
      in [char_of (val div 65536), char_of (val div 256 mod 256), char_of (val mod 256)])"

fun decodeQuanta :: "string \<Rightarrow> string option" where
  "decodeQuanta [] = Some []"
| "decodeQuanta (a # b # c # d # rest) =
     (case (b64index a, b64index b) of
        (Some x0, Some x1) \<Rightarrow>
          (case b64index c of
             Some x2 \<Rightarrow>
               (case b64index d of
                  Some x3 \<Rightarrow> map_option (\<lambda>t. quantum x0 x1 x2 x3 @ t) (decodeQuanta rest)
                | None \<Rightarrow>
                    if d = CHR ''='' \<and> rest = [] then Some (take 2 (quantum x0 x1 x2 0)) else None)
           | None \<Rightarrow>
               if c = CHR ''='' \<and> d = CHR ''='' \<and> rest = [] then Some (take 1 (quantum x0 x1 0 0))
               else None)
      | _ \<Rightarrow> None)"
| "decodeQuanta _ = None"

definition base64_DecodeString :: "string \<Rightarrow> string option" where
  "base64_DecodeString s = decodeQuanta (filter (\<lambda>c. c \<noteq> CHR 0x0A \<and> c \<noteq> CHR 0x0D) s)"

text \<open>
  Of an \<^verbatim>\<open>*http.Request\<close> the program reads the method, the headers and the parsed form.
  \<^verbatim>\<open>Header.Get\<close> and \<^verbatim>\<open>FormValue\<close> return the first value under a key, and the empty
  string when there is none. The two header names used are in canonical form already.
\<close>

record Request =
  Method :: string
  Header :: "string \<Rightarrow> string list option"
  Form :: "string \<Rightarrow> string list option"

definition firstValue :: "(string \<Rightarrow> string list option) \<Rightarrow> string \<Rightarrow> string" where
  "firstValue m k = (case m k of None \<Rightarrow> [] | Some [] \<Rightarrow> [] | Some (v # _) \<Rightarrow> v)"

definition Header_Get :: "Request \<Rightarrow> string \<Rightarrow> string" where
  "Header_Get r k = firstValue (Header r) k"

definition FormValue :: "Request \<Rightarrow> string \<Rightarrow> string" where
  "FormValue r k = firstValue (Form r) k"

text \<open>
  The state of the package is the variable \<^verbatim>\<open>travisPubKey\<close> (line 81). The state also
  records the URLs requested with \<^verbatim>\<open>http.Get\<close>, in order, so that network access can be
  stated. What the network answers to a request is an argument \<open>net\<close> of the functions that
  may fetch: \<^const>\<open>None\<close> when \<^verbatim>\<open>http.Get\<close> returns an error, else the body of the response.
\<close>

record world =
  travisPubKey :: "rsa_PublicKey option"
  requested :: "string list"

subsection \<open>GetPayload (lines 83-94)\<close>



subsection \<open>parsePublicKey (lines 187-203)\<close>

text \<open>
  The last line, \<^verbatim>\<open>publicKey.(*rsa.PublicKey)\<close>, is a type assertion with one result: it
  panics when the key is of another type.
\<close>

definition parsePublicKey :: "lib \<Rightarrow> string \<Rightarrow> rsa_PublicKey outcome" where
  "parsePublicKey L key =
     (case pem_Decode L key of
        None \<Rightarrow> Err (errors_New ''invalid public key'')
      | Some block \<Rightarrow>
          if pem_Type block \<noteq> ''PUBLIC KEY'' then Err (errors_New ''invalid public key'')
          else case x509_ParsePKIXPublicKey L (pem_Bytes block) of
                 None \<Rightarrow> Err (errors_New ''invalid public key'')
               | Some publicKey \<Rightarrow>
                   (case publicKey of RSA_PublicKey k \<Rightarrow> Ok k | _ \<Rightarrow> Panic))"

subsection \<open>travisPublicKey (lines 156-185)\<close>

definition config_url :: string where
  "config_url = ''https://api.travis-ci.org/config''"

definition travisPublicKey ::
  "lib \<Rightarrow> (string \<Rightarrow> string option) \<Rightarrow> world \<Rightarrow> rsa_PublicKey outcome \<times> world" where
  "travisPublicKey L net w =
     (case travisPubKey w of
        Some k \<Rightarrow> (Ok k, w)
      | None \<Rightarrow>
          (let w' = w\<lparr>requested := requested w @ [config_url]\<rparr>
           in case net config_url of
                None \<Rightarrow> (Err (errors_New ''cannot fetch travis public key''), w')
              | Some body \<Rightarrow>
                  (case Option.bind (Decoder_readValue body) unmarshal_configKey of
                     None \<Rightarrow> (Err (errors_New ''cannot decode travis public key''), w')
                   | Some t \<Rightarrow>
                       (case parsePublicKey L
                               (PublicKey (Webhook (Notifications (configKey.Config t)))) of
                          Ok key \<Rightarrow> (Ok key, w'\<lparr>travisPubKey := Some key\<rparr>)
                        | Err e \<Rightarrow> (Err e, w')
                        | Panic \<Rightarrow> (Panic, w')))))"

subsection \<open>parsePayloadSignature and payloadDigest (lines 205-221)\<close>

definition parsePayloadSignature :: "Request \<Rightarrow> string outcome" where
  "parsePayloadSignature r =
     (let signature = Header_Get r ''Signature''
      in if signature = [] then Err (errors_New ''missing Signature header'')
         else case base64_DecodeString signature of
                None \<Rightarrow> Err (errors_New ''cannot decode signature'')
              | Some b64 \<Rightarrow> Ok b64)"

definition payloadDigest :: "lib \<Rightarrow> string \<Rightarrow> string" where
  "payloadDigest L payload = sha1_Sum L payload"

subsection \<open>GetPayloadFromRequest (lines 96-132)\<close>

definition GetPayloadFromRequest ::
  "lib \<Rightarrow> (string \<Rightarrow> string option) \<Rightarrow> Request \<Rightarrow> world \<Rightarrow> Payload outcome \<times> world" where
  "GetPayloadFromRequest L net r w =
     (if Method r \<noteq> ''POST'' then
        (Err (fmt_Errorf ''wrong request method %q instead of POST'' [Method r]), w)
      else if Header_Get r ''Content-Type'' \<noteq> ''application/x-www-form-urlencoded'' then
        (Err (fmt_Errorf
                ''wrong Content-Type header, got %s != want application/x-www-form-urlencoded''
                [Header_Get r ''Content-Type'']), w)
      else case travisPublicKey L net w of
             (Err e, w') \<Rightarrow> (Err e, w')
           | (Panic, w') \<Rightarrow> (Panic, w')
           | (Ok key, w') \<Rightarrow>
               (case parsePayloadSignature r of
                  Err e \<Rightarrow> (Err e, w')
                | Panic \<Rightarrow> (Panic, w')
                | Ok signature \<Rightarrow>
                    (let payload = payloadDigest L (FormValue r ''payload'')
                     in if \<not> rsa_VerifyPKCS1v15 L key SHA1 payload signature then
                          (Err (errors_New ''unauthorized payload''), w')
                        else case Option.bind (checkValid (FormValue r ''payload''))
                                    (unmarshal_Payload (time_UnmarshalJSON L) (time_MarshalJSON L)) of
                               None \<Rightarrow> (Err (errors_New ''cannot decode payload''), w')
                             | Some p \<Rightarrow> (Ok p, w'))))"

subsection \<open>Calls of travisPublicKey that run at the same time\<close>

text \<open>
  \<^verbatim>\<open>travisPublicKey\<close> reads the variable \<^verbatim>\<open>travisPubKey\<close> at line 158 (the test) and at
  line 159 (the return), writes it at line 182 and reads it again at line 184. Between
  the test and the write lie the request, the decoding and the parsing (lines 162-179),
  which do not touch the variable. travis.go has no lock, no atomic value and no
  \<^verbatim>\<open>sync.Once\<close>: when several calls run at the same time, nothing orders the accesses of
  one call with those of another. A call is therefore at one of these places, and takes
  one step at a time; a step holds at most one access of the variable.
\<close>

datatype place =
    AtTest
  | AtReturnCached
  | AtFetch
  | AtStore rsa_PublicKey
  | AtReturnStored
  | Returned "rsa_PublicKey option outcome"

text \<open>
  The result of a call is the pointer it returns, which is what it read from the
  variable, or its error, or a panic. Lines 162-179 give a key, an error or a panic:
\<close>

definition fetchKey :: "lib \<Rightarrow> (string \<Rightarrow> string option) \<Rightarrow> rsa_PublicKey outcome" where
  "fetchKey L net =
     (case net config_url of
        None \<Rightarrow> Err (errors_New ''cannot fetch travis public key'')
      | Some body \<Rightarrow>
          (case Option.bind (Decoder_readValue body) unmarshal_configKey of
             None \<Rightarrow> Err (errors_New ''cannot decode travis public key'')
           | Some t \<Rightarrow>
               parsePublicKey L (PublicKey (Webhook (Notifications (configKey.Config t))))))"

fun returned :: "rsa_PublicKey outcome \<Rightarrow> rsa_PublicKey option outcome" where
  "returned (Ok key) = Ok (Some key)"
| "returned (Err e) = Err e"
| "returned Panic = Panic"

text \<open>
  The state of the calls: the state of the package, the place of every call, and the
  accesses of the variable made so far, each with the number of the call that made it.
\<close>

datatype access = ReadVar | WriteVar

record calls =
  shared :: world
  places :: "place list"
  accesses :: "(nat \<times> access) list"

definition step :: "lib \<Rightarrow> (string \<Rightarrow> string option) \<Rightarrow> nat \<Rightarrow> calls \<Rightarrow> calls" where
  "step L net i c =
     (if length (places c) \<le> i then c
      else case places c ! i of
             AtTest \<Rightarrow>
               c\<lparr>places := (places c)
                      [i := (case travisPubKey (shared c) of
                               Some k \<Rightarrow> AtReturnCached
                             | None \<Rightarrow> AtFetch)],
                 accesses := accesses c @ [(i, ReadVar)]\<rparr>
           | AtReturnCached \<Rightarrow>
               c\<lparr>places := (places c)[i := Returned (Ok (travisPubKey (shared c)))],
                 accesses := accesses c @ [(i, ReadVar)]\<rparr>
           | AtFetch \<Rightarrow>
               c\<lparr>shared := (shared c)\<lparr>requested := requested (shared c) @ [config_url]\<rparr>,
                 places := (places c)
                      [i := (case fetchKey L net of
                               Ok key \<Rightarrow> AtStore key
                             | Err e \<Rightarrow> Returned (Err e)
                             | Panic \<Rightarrow> Returned Panic)]\<rparr>
           | AtStore key \<Rightarrow>
               c\<lparr>shared := (shared c)\<lparr>travisPubKey := Some key\<rparr>,
                 places := (places c)[i := AtReturnStored],
                 accesses := accesses c @ [(i, WriteVar)]\<rparr>
           | AtReturnStored \<Rightarrow>
               c\<lparr>places := (places c)[i := Returned (Ok (travisPubKey (shared c)))],
                 accesses := accesses c @ [(i, ReadVar)]\<rparr>
           | Returned x \<Rightarrow> c)"

text \<open>
  A schedule names, step by step, the call that moves next. \<open>n\<close> calls start together
  at the test of line 158.
\<close>

fun run :: "lib \<Rightarrow> (string \<Rightarrow> string option) \<Rightarrow> nat list \<Rightarrow> calls \<Rightarrow> calls" where
  "run L net [] c = c"
| "run L net (i # sched) c = run L net sched (step L net i c)"

definition start :: "nat \<Rightarrow> world \<Rightarrow> calls" where
  "start n w = \<lparr>shared = w, places = replicate n AtTest, accesses = []\<rparr>"

text \<open>
  How often the variable was written, and the largest number of steps that a call at a
  place has before it.
\<close>

definition writes :: "calls \<Rightarrow> nat" where
  "writes c = length (filter (\<lambda>a. snd a = WriteVar) (accesses c))"








section \<open>The shape of a Payload in JSON, and what re-encoding keeps of it\<close>














section \<open>Concrete instances\<close>

text \<open>
  The words that the state predicates compare with, each with its predicate.
\<close>

definition state_vocabulary :: "(string \<times> (Payload \<Rightarrow> bool)) list" where
  "state_vocabulary =
     [(''Pending'', Pending), (''Passed'', Passed), (''Fixed'', Fixed), (''Broken'', Broken),
      (''Failed'', Failed), (''Still Failing'', StillFailing), (''Canceled'', Canceled),
      (''Errored'', Errored)]"

text \<open>
  A small instance of the library parameters, on which the functions can be evaluated: it
  knows one time besides the zero time, one PEM text with an RSA key and one with an
  elliptic-curve key, takes a text as its own digest, and accepts a signature that equals
  the digest.
\<close>

definition example_lib :: lib where
  "example_lib =
     \<lparr>time_UnmarshalJSON =
        (\<lambda>raw. if raw = ''2018-01-01T00:00:00Z'' then Some (Time 63650361600 0 0) else None),
      time_MarshalJSON =
        (\<lambda>t. if t = zero_time then Some ''0001-01-01T00:00:00Z''
             else if t = Time 63650361600 0 0 then Some ''2018-01-01T00:00:00Z''
             else None),
      pem_Decode =
        (\<lambda>s. if s = ''RSA PEM'' then Some \<lparr>pem_Type = ''PUBLIC KEY'', pem_Bytes = ''RSA DER''\<rparr>
             else if s = ''EC PEM'' then Some \<lparr>pem_Type = ''PUBLIC KEY'', pem_Bytes = ''EC DER''\<rparr>
             else None),
      x509_ParsePKIXPublicKey =
        (\<lambda>b. if b = ''RSA DER'' then Some (RSA_PublicKey \<lparr>N = 3233, E = 17\<rparr>)
             else if b = ''EC DER'' then Some (ECDSA_PublicKey ''P-256'')
             else None),
      sha1_Sum = (\<lambda>s. s),
      rsa_VerifyPKCS1v15 = (\<lambda>key h digest sig. sig = digest)\<rparr>"

definition example_key :: rsa_PublicKey where
  "example_key = \<lparr>N = 3233, E = 17\<rparr>"

text \<open>Worlds with an empty and with a filled key cache, and no request made so far.\<close>

definition cold :: world where
  "cold = \<lparr>travisPubKey = None, requested = []\<rparr>"

definition warm :: world where
  "warm = \<lparr>travisPubKey = Some example_key, requested = []\<rparr>"

text \<open>
  Three networks: one that cannot be reached, one that serves a configuration with the RSA
  key, and one that serves the elliptic-curve key.
\<close>

definition net_down :: "string \<Rightarrow> string option" where
  "net_down url = None"

definition net_rsa :: "string \<Rightarrow> string option" where
  "net_rsa url =
     Some (''{'' @ [CHR 0x22] @ ''config'' @ [CHR 0x22] @ '':{'' @ [CHR 0x22] @ ''notifications''
           @ [CHR 0x22] @ '':{'' @ [CHR 0x22] @ ''webhook'' @ [CHR 0x22] @ '':{'' @ [CHR 0x22]
           @ ''public_key'' @ [CHR 0x22] @ '':'' @ [CHR 0x22] @ ''RSA PEM'' @ [CHR 0x22] @ ''}}}}'')"

definition net_ec :: "string \<Rightarrow> string option" where
  "net_ec url =
     Some (''{'' @ [CHR 0x22] @ ''config'' @ [CHR 0x22] @ '':{'' @ [CHR 0x22] @ ''notifications''
           @ [CHR 0x22] @ '':{'' @ [CHR 0x22] @ ''webhook'' @ [CHR 0x22] @ '':{'' @ [CHR 0x22]
           @ ''public_key'' @ [CHR 0x22] @ '':'' @ [CHR 0x22] @ ''EC PEM'' @ [CHR 0x22] @ ''}}}}'')"

text \<open>
  A request as the provider sends it, whose signature \<^verbatim>\<open>e30=\<close> is the base64 text of the
  payload \<^verbatim>\<open>{}\<close>, and variants of it.
\<close>

definition signed_request :: Request where
  "signed_request =
     \<lparr>Method = ''POST'',
      Header = map_of [(''Content-Type'', [''application/x-www-form-urlencoded'']),
                       (''Signature'', [''e30=''])],
      Form = map_of [(''payload'', [''{}''])]\<rparr>"

section \<open>The state and type predicates\<close>

lemmas predicate_defs =
  Pending_def Passed_def Fixed_def Broken_def Failed_def StillFailing_def Canceled_def
  Errored_def IsPullRequest_def IsPush_def IsCron_def IsAPI_def

text \<open>
  Claim C5. On the Payload whose only field that is not zero is \<^verbatim>\<open>StatusMessage = "Passed"\<close>,
  \<^verbatim>\<open>Passed\<close> holds and the other seven state predicates do not; on the Payload whose only
  field that is not zero is \<^verbatim>\<open>Type = "cron"\<close>, \<^verbatim>\<open>IsCron\<close> holds and \<^verbatim>\<open>IsPush\<close>,
  \<^verbatim>\<open>IsAPI\<close> and \<^verbatim>\<open>IsPullRequest\<close> do not. Every predicate compares with the exact
  word of the vocabulary: a type predicate holds exactly when \<^verbatim>\<open>Type\<close> is its word, a
  state predicate exactly when \<^verbatim>\<open>StatusMessage\<close> or \<^verbatim>\<open>ResultMessage\<close> is its word. So
  another letter case, a trailing blank or another separator is not recognised.
\<close>

theorem predicates_of_Passed_and_cron:
  "Passed (zero_Payload\<lparr>StatusMessage := ''Passed''\<rparr>)
   \<and> \<not> Pending (zero_Payload\<lparr>StatusMessage := ''Passed''\<rparr>)
   \<and> \<not> Fixed (zero_Payload\<lparr>StatusMessage := ''Passed''\<rparr>)
   \<and> \<not> Broken (zero_Payload\<lparr>StatusMessage := ''Passed''\<rparr>)
   \<and> \<not> Failed (zero_Payload\<lparr>StatusMessage := ''Passed''\<rparr>)
   \<and> \<not> StillFailing (zero_Payload\<lparr>StatusMessage := ''Passed''\<rparr>)
   \<and> \<not> Canceled (zero_Payload\<lparr>StatusMessage := ''Passed''\<rparr>)
   \<and> \<not> Errored (zero_Payload\<lparr>StatusMessage := ''Passed''\<rparr>)
   \<and> IsCron (zero_Payload\<lparr>Type := ''cron''\<rparr>)
   \<and> \<not> IsPush (zero_Payload\<lparr>Type := ''cron''\<rparr>)
   \<and> \<not> IsAPI (zero_Payload\<lparr>Type := ''cron''\<rparr>)
   \<and> \<not> IsPullRequest (zero_Payload\<lparr>Type := ''cron''\<rparr>)
   \<and> \<not> Passed (zero_Payload\<lparr>StatusMessage := ''passed''\<rparr>)
   \<and> \<not> Passed (zero_Payload\<lparr>StatusMessage := ''PASSED''\<rparr>)
   \<and> \<not> Passed (zero_Payload\<lparr>StatusMessage := ''Passed ''\<rparr>)
   \<and> \<not> StillFailing (zero_Payload\<lparr>StatusMessage := ''Still failing''\<rparr>)
   \<and> \<not> StillFailing (zero_Payload\<lparr>StatusMessage := ''StillFailing''\<rparr>)
   \<and> \<not> IsCron (zero_Payload\<lparr>Type := ''Cron''\<rparr>)
   \<and> \<not> IsAPI (zero_Payload\<lparr>Type := ''API''\<rparr>)
   \<and> \<not> IsPullRequest (zero_Payload\<lparr>Type := ''pull request''\<rparr>)
   \<and> IsPullRequest p = (Type p = ''pull_request'')
   \<and> IsPush p = (Type p = ''push'')
   \<and> IsCron p = (Type p = ''cron'')
   \<and> IsAPI p = (Type p = ''api'')
   \<and> Pending p = (StatusMessage p = ''Pending'' \<or> ResultMessage p = ''Pending'')
   \<and> Passed p = (StatusMessage p = ''Passed'' \<or> ResultMessage p = ''Passed'')
   \<and> Fixed p = (StatusMessage p = ''Fixed'' \<or> ResultMessage p = ''Fixed'')
   \<and> Broken p = (StatusMessage p = ''Broken'' \<or> ResultMessage p = ''Broken'')
   \<and> Failed p = (StatusMessage p = ''Failed'' \<or> ResultMessage p = ''Failed'')
   \<and> StillFailing p = (StatusMessage p = ''Still Failing'' \<or> ResultMessage p = ''Still Failing'')
   \<and> Canceled p = (StatusMessage p = ''Canceled'' \<or> ResultMessage p = ''Canceled'')
   \<and> Errored p = (StatusMessage p = ''Errored'' \<or> ResultMessage p = ''Errored'')"
  by (simp add: predicate_defs zero_Payload_def)

text \<open>
  Claim C6. Each state predicate holds exactly when \<^verbatim>\<open>StatusMessage\<close> or
  \<^verbatim>\<open>ResultMessage\<close> is its word. So when the two fields hold two words of the vocabulary,
  the predicates of both words hold at once: the state predicates do not exclude each
  other.
\<close>

theorem state_predicates_either_field:
  "Pending p = (StatusMessage p = ''Pending'' \<or> ResultMessage p = ''Pending'')
   \<and> Passed p = (StatusMessage p = ''Passed'' \<or> ResultMessage p = ''Passed'')
   \<and> Fixed p = (StatusMessage p = ''Fixed'' \<or> ResultMessage p = ''Fixed'')
   \<and> Broken p = (StatusMessage p = ''Broken'' \<or> ResultMessage p = ''Broken'')
   \<and> Failed p = (StatusMessage p = ''Failed'' \<or> ResultMessage p = ''Failed'')
   \<and> StillFailing p = (StatusMessage p = ''Still Failing'' \<or> ResultMessage p = ''Still Failing'')
   \<and> Canceled p = (StatusMessage p = ''Canceled'' \<or> ResultMessage p = ''Canceled'')
   \<and> Errored p = (StatusMessage p = ''Errored'' \<or> ResultMessage p = ''Errored'')
   \<and> (\<forall>(w1, P1) \<in> set state_vocabulary. \<forall>(w2, P2) \<in> set state_vocabulary.
          StatusMessage p = w1 \<and> ResultMessage p = w2 \<longrightarrow> P1 p \<and> P2 p)"
  by (simp add: predicate_defs state_vocabulary_def)

text \<open>The instance \<^verbatim>\<open>StatusMessage = "Passed"\<close>, \<^verbatim>\<open>ResultMessage = "Failed"\<close>.\<close>

theorem state_predicates_either_field_witness:
  "Passed (zero_Payload\<lparr>StatusMessage := ''Passed'', ResultMessage := ''Failed''\<rparr>)
   \<and> Failed (zero_Payload\<lparr>StatusMessage := ''Passed'', ResultMessage := ''Failed''\<rparr>)"
  using state_predicates_either_field
    [of "zero_Payload\<lparr>StatusMessage := ''Passed'', ResultMessage := ''Failed''\<rparr>"]
  by (simp add: state_vocabulary_def)

section \<open>The checks of GetPayloadFromRequest\<close>

text \<open>
  Claim C7. A request whose method is not POST is rejected with an error that carries the
  method, and a POST whose \<^verbatim>\<open>Content-Type\<close> is not
  \<^verbatim>\<open>application/x-www-form-urlencoded\<close> with an error that carries the header's value.
  Both happen before anything else: the result does not depend on the library, the
  network, the signature or the payload, and the state is returned unchanged, so no key
  was fetched or cached.
\<close>

theorem GetPayloadFromRequest_rejects_first:
  "(Method r \<noteq> ''POST'' \<longrightarrow>
      GetPayloadFromRequest L net r w =
        (Err (fmt_Errorf ''wrong request method %q instead of POST'' [Method r]), w))
   \<and> (Method r = ''POST'' \<and> Header_Get r ''Content-Type'' \<noteq> ''application/x-www-form-urlencoded'' \<longrightarrow>
      GetPayloadFromRequest L net r w =
        (Err (fmt_Errorf
                ''wrong Content-Type header, got %s != want application/x-www-form-urlencoded''
                [Header_Get r ''Content-Type'']), w))"
  by (simp add: GetPayloadFromRequest_def)

text \<open>A GET request, and a POST that announces JSON.\<close>

theorem GetPayloadFromRequest_rejects_first_witness:
  "GetPayloadFromRequest example_lib net_rsa (signed_request\<lparr>Method := ''GET''\<rparr>) cold =
     (Err (fmt_Errorf ''wrong request method %q instead of POST'' [''GET'']), cold)
   \<and> GetPayloadFromRequest example_lib net_rsa
        (signed_request\<lparr>Header := map_of [(''Content-Type'', [''application/json'']),
                                                 (''Signature'', [''e30=''])]\<rparr>) cold =
     (Err (fmt_Errorf
             ''wrong Content-Type header, got %s != want application/x-www-form-urlencoded''
             [''application/json'']), cold)"
  using GetPayloadFromRequest_rejects_first
      [of "signed_request\<lparr>Method := ''GET''\<rparr>" example_lib net_rsa cold]
    GetPayloadFromRequest_rejects_first
      [of "signed_request\<lparr>Header := map_of [(''Content-Type'', [''application/json'']),
                                                 (''Signature'', [''e30=''])]\<rparr>"
          example_lib net_rsa cold]
  by (simp add: signed_request_def Header_Get_def firstValue_def)

section \<open>The signature header\<close>

lemmas b64_simps = base64_DecodeString_def b64index_def between_def byte_def isDigit_def
  quantum_def char_of_def bit_iff_odd_drop_bit drop_bit_eq_div

lemma b64_e30: "base64_DecodeString ''e30='' = Some ''{}''"
  by (simp add: b64_simps)

lemma b64_bad: "base64_DecodeString ''e30'' = None"
  by (simp add: b64_simps)

lemma signature_e30: "parsePayloadSignature (signed_request\<lparr>Form := f\<rparr>) = Ok ''{}''"
  by (simp add: parsePayloadSignature_def Header_Get_def firstValue_def signed_request_def b64_e30)

lemma Header_Get_empty_iff:
  "Header_Get r k = [] \<longleftrightarrow>
     (Header r k = None \<or> Header r k = Some [] \<or> (\<exists>vs. Header r k = Some ([] # vs)))"
  by (auto simp: Header_Get_def firstValue_def split: option.splits list.splits)

text \<open>
  Claim C8, as amended. \<^verbatim>\<open>parsePayloadSignature\<close> fails with the error
  \<^verbatim>\<open>missing Signature header\<close> when the \<^verbatim>\<open>Signature\<close> header is absent or its first
  value is empty; when the header is present and is not base64 text of the standard
  encoding it fails with \<^verbatim>\<open>cannot decode signature\<close>; otherwise it returns the decoded
  bytes as they are.
\<close>

theorem parsePayloadSignature_results:
  "(Header_Get r ''Signature'' = [] \<longrightarrow>
      parsePayloadSignature r = Err (errors_New ''missing Signature header''))
   \<and> (Header_Get r ''Signature'' \<noteq> [] \<and> base64_DecodeString (Header_Get r ''Signature'') = None \<longrightarrow>
      parsePayloadSignature r = Err (errors_New ''cannot decode signature''))
   \<and> (Header_Get r ''Signature'' \<noteq> [] \<and> base64_DecodeString (Header_Get r ''Signature'') = Some b \<longrightarrow>
      parsePayloadSignature r = Ok b)
   \<and> (Header_Get r ''Signature'' = [] \<longleftrightarrow>
        (Header r ''Signature'' = None \<or> Header r ''Signature'' = Some []
         \<or> (\<exists>vs. Header r ''Signature'' = Some ([] # vs))))"
  by (simp add: parsePayloadSignature_def Header_Get_empty_iff)

text \<open>An empty header, a header without padding, and the header \<^verbatim>\<open>e30=\<close>.\<close>

theorem parsePayloadSignature_results_witness:
  "parsePayloadSignature (signed_request\<lparr>Header := map_of [(''Signature'', [[]])]\<rparr>) =
     Err (errors_New ''missing Signature header'')
   \<and> parsePayloadSignature (signed_request\<lparr>Header := map_of [(''Signature'', [''e30''])]\<rparr>) =
     Err (errors_New ''cannot decode signature'')
   \<and> parsePayloadSignature signed_request = Ok ''{}''"
  using parsePayloadSignature_results
      [of "signed_request\<lparr>Header := map_of [(''Signature'', [[]])]\<rparr>" "[]"]
    parsePayloadSignature_results
      [of "signed_request\<lparr>Header := map_of [(''Signature'', [''e30''])]\<rparr>" "[]"]
    parsePayloadSignature_results [of signed_request "''{}''"]
  by (simp add: Header_Get_def firstValue_def signed_request_def b64_e30 b64_bad)

text \<open>
  The claim as stated names the error \<^verbatim>\<open>missing header\<close>; the text that the code returns is
  another.
\<close>

theorem missing_header_text_counterexample:
  "parsePayloadSignature \<lparr>Method = ''POST'', Header = Map.empty, Form = Map.empty\<rparr> =
     Err (errors_New ''missing Signature header'')
   \<and> parsePayloadSignature \<lparr>Method = ''POST'', Header = Map.empty, Form = Map.empty\<rparr> \<noteq>
     Err (errors_New ''missing header'')"
  by (simp add: parsePayloadSignature_def Header_Get_def firstValue_def)

section \<open>A signature that does not verify\<close>

text \<open>
  Claim C9. When the method and content type are right, the key is there and the signature
  header decodes, and \<^verbatim>\<open>rsa.VerifyPKCS1v15\<close> with SHA-1 returns an error on the digest of
  the \<^verbatim>\<open>payload\<close> form field, the result is the one error \<^verbatim>\<open>unauthorized payload\<close>,
  whatever the key, the signature bytes and the payload are, and no Payload.
\<close>

theorem unauthorized_payload_generic:
  assumes "Method r = ''POST''"
    and "Header_Get r ''Content-Type'' = ''application/x-www-form-urlencoded''"
    and "travisPublicKey L net w = (Ok key, w')"
    and "parsePayloadSignature r = Ok sig"
    and "\<not> rsa_VerifyPKCS1v15 L key SHA1 (payloadDigest L (FormValue r ''payload'')) sig"
  shows "GetPayloadFromRequest L net r w = (Err (errors_New ''unauthorized payload''), w')"
  using assms by (simp add: GetPayloadFromRequest_def)

lemma travisPublicKey_cached:
  "travisPubKey w = Some k \<Longrightarrow> travisPublicKey L net w = (Ok k, w)"
  by (simp add: travisPublicKey_def)


text \<open>A payload that was changed after signing, with the key in the cache.\<close>

theorem unauthorized_payload_generic_witness:
  "GetPayloadFromRequest example_lib net_down
     (signed_request\<lparr>Form := map_of [(''payload'', [''{ }''])]\<rparr>) warm =
   (Err (errors_New ''unauthorized payload''), warm)"
proof -
  let ?r = "signed_request\<lparr>Form := map_of [(''payload'', [''{ }''])]\<rparr>"
  have 1: "Method ?r = ''POST''" by (simp add: signed_request_def)
  have 2: "Header_Get ?r ''Content-Type'' = ''application/x-www-form-urlencoded''"
    by (simp add: signed_request_def Header_Get_def firstValue_def)
  have 3: "travisPublicKey example_lib net_down warm = (Ok example_key, warm)"
    by (rule travisPublicKey_cached) (simp add: warm_def)
  have 4: "parsePayloadSignature ?r = Ok ''{}''" by (rule signature_e30)
  have 5: "\<not> rsa_VerifyPKCS1v15 example_lib example_key SHA1
              (payloadDigest example_lib (FormValue ?r ''payload'')) ''{}''"
    by (simp add: example_lib_def payloadDigest_def FormValue_def firstValue_def)
  show ?thesis by (rule unauthorized_payload_generic [OF 1 2 3 4 5])
qed

section \<open>A key that is not an RSA key\<close>

text \<open>
  Claim C1 says that \<^verbatim>\<open>parsePublicKey\<close> returns the error \<^verbatim>\<open>invalid public key\<close> for
  a \<^verbatim>\<open>PUBLIC KEY\<close> block whose bytes parse as a PKIX key that is not an RSA key. The
  code does not: the unchecked type assertion panics on every such key.
\<close>

theorem parsePublicKey_panics_on_other_key_type:
  assumes "pem_Decode L key = Some block"
    and "pem_Type block = ''PUBLIC KEY''"
    and "x509_ParsePKIXPublicKey L (pem_Bytes block) = Some publicKey"
    and "\<forall>k. publicKey \<noteq> RSA_PublicKey k"
  shows "parsePublicKey L key = Panic"
  using assms by (cases publicKey) (simp_all add: parsePublicKey_def)

text \<open>The elliptic-curve key of the example library.\<close>

theorem parsePublicKey_panics_on_other_key_type_witness:
  "parsePublicKey example_lib ''EC PEM'' = Panic"
  by (rule parsePublicKey_panics_on_other_key_type
        [where block = "\<lparr>pem_Type = ''PUBLIC KEY'', pem_Bytes = ''EC DER''\<rparr>"
           and publicKey = "ECDSA_PublicKey ''P-256''"])
     (simp_all add: example_lib_def)

section \<open>The key cache\<close>

text \<open>
  With a key in the cache, \<^verbatim>\<open>travisPublicKey\<close> returns it and leaves the state as it is:
  no request is made. With an empty cache it makes one request; the cache then holds the
  key exactly when a key is returned, and stays empty otherwise: on the fetch error, on
  the decode error, and on whatever \<^verbatim>\<open>parsePublicKey\<close> does that is not the return of a
  key. After a success every later call returns the same key without a request; after an
  error the next call requests the configuration again.
\<close>

lemma key_cache_lifecycle:
  "(travisPubKey w = Some k \<longrightarrow> travisPublicKey L net w = (Ok k, w))
   \<and> (travisPubKey w = None \<longrightarrow>
        requested (snd (travisPublicKey L net w)) = requested w @ [config_url]
        \<and> travisPubKey (snd (travisPublicKey L net w)) =
            (case fst (travisPublicKey L net w) of Ok key \<Rightarrow> Some key | Err e \<Rightarrow> None | Panic \<Rightarrow> None))
   \<and> (travisPubKey w = None \<and> net config_url = None \<longrightarrow>
        fst (travisPublicKey L net w) = Err (errors_New ''cannot fetch travis public key''))
   \<and> (travisPubKey w = None \<and> net config_url = Some body
        \<and> Option.bind (Decoder_readValue body) unmarshal_configKey = None \<longrightarrow>
        fst (travisPublicKey L net w) = Err (errors_New ''cannot decode travis public key''))
   \<and> (travisPubKey w = None \<and> net config_url = Some body
        \<and> Option.bind (Decoder_readValue body) unmarshal_configKey = Some t \<longrightarrow>
        fst (travisPublicKey L net w) =
          parsePublicKey L (PublicKey (Webhook (Notifications (configKey.Config t)))))
   \<and> (travisPublicKey L net w = (Ok key', w') \<longrightarrow> travisPublicKey L' net' w' = (Ok key', w'))
   \<and> (travisPubKey w = None \<and> travisPublicKey L net w = (Err e, w') \<longrightarrow>
        travisPubKey w' = None
        \<and> requested (snd (travisPublicKey L' net' w')) = requested w @ [config_url, config_url])"
  by (auto simp: travisPublicKey_def Let_def split: option.splits outcome.splits)

lemmas scan_simps = scanFirst_def skipSpace_def isSpace_def scanNumber_def scanFrac_def
  scanExp_def isDigit_def maxNestingDepth_def between_def byte_def isHex_def eval_nat_numeral

lemma scan_rsa_body:
  "scanFirst (the (net_rsa config_url)) =
     Some (JObject [(''config'', JObject [(''notifications'', JObject [(''webhook'',
             JObject [(''public_key'', JString ''RSA PEM'')])])])], [])"
  by (simp add: scan_simps net_rsa_def)

lemma decode_rsa_body:
  "Option.bind (Decoder_readValue (the (net_rsa config_url))) unmarshal_configKey =
     Some (zero_configKey\<lparr>configKey.Config :=
             (configKey.Config zero_configKey)\<lparr>Notifications :=
                \<lparr>Webhook = \<lparr>PublicKey = ''RSA PEM''\<rparr>\<rparr>\<rparr>\<rparr>)"
  by (simp add: Decoder_readValue_def scan_rsa_body unmarshal_configKey_def storeStruct_def
      configKey_fields_def configKey_Config_fields_def configKey_Notifications_fields_def
      configKey_Webhook_fields_def dfield_def findField_def storeString_def zero_configKey_def
      between_def byte_def char_of_def bit_iff_odd_drop_bit drop_bit_eq_div)

lemma parse_rsa: "parsePublicKey example_lib ''RSA PEM'' = Ok example_key"
  by (simp add: parsePublicKey_def example_lib_def example_key_def)

text \<open>
  A warm cache with the network down; a cold cache with the network down, and with the
  network serving the RSA key.
\<close>

lemma key_cache_lifecycle_examples:
  "travisPublicKey example_lib net_down warm = (Ok example_key, warm)
   \<and> fst (travisPublicKey example_lib net_down cold) =
       Err (errors_New ''cannot fetch travis public key'')
   \<and> travisPubKey (snd (travisPublicKey example_lib net_down cold)) = None
   \<and> requested (snd (travisPublicKey example_lib net_down cold)) = [config_url]
   \<and> fst (travisPublicKey example_lib net_rsa cold) = Ok example_key
   \<and> travisPubKey (snd (travisPublicKey example_lib net_rsa cold)) = Some example_key"
proof -
  let ?t = "zero_configKey\<lparr>configKey.Config :=
              (configKey.Config zero_configKey)\<lparr>Notifications :=
                 \<lparr>Webhook = \<lparr>PublicKey = ''RSA PEM''\<rparr>\<rparr>\<rparr>\<rparr>"
  have w: "travisPubKey warm = Some example_key" by (simp add: warm_def)
  have c: "travisPubKey cold = None" and r: "requested cold = []" by (simp_all add: cold_def)
  have d: "net_down config_url = None" by (simp add: net_down_def)
  have b: "net_rsa config_url = Some (the (net_rsa config_url))" by (simp add: net_rsa_def)
  have k: "PublicKey (Webhook (Notifications (configKey.Config ?t))) = ''RSA PEM''" by simp
  note warm_down =
    key_cache_lifecycle [where w = warm and k = example_key and L = example_lib and net = net_down]
  note cold_down = key_cache_lifecycle [where w = cold and L = example_lib and net = net_down]
  note cold_rsa =
    key_cache_lifecycle [where w = cold and L = example_lib and net = net_rsa
      and body = "the (net_rsa config_url)" and t = ?t]
  from warm_down w have 1: "travisPublicKey example_lib net_down warm = (Ok example_key, warm)"
    by blast
  from cold_down c d have 2: "fst (travisPublicKey example_lib net_down cold) =
      Err (errors_New ''cannot fetch travis public key'')" by blast
  from cold_down c have "requested (snd (travisPublicKey example_lib net_down cold)) =
        requested cold @ [config_url]"
    and "travisPubKey (snd (travisPublicKey example_lib net_down cold)) =
        (case fst (travisPublicKey example_lib net_down cold) of
           Ok key \<Rightarrow> Some key | Err e \<Rightarrow> None | Panic \<Rightarrow> None)" by blast+
  with 2 r have 3: "travisPubKey (snd (travisPublicKey example_lib net_down cold)) = None"
    and 4: "requested (snd (travisPublicKey example_lib net_down cold)) = [config_url]"
    by simp_all
  from cold_rsa c b decode_rsa_body have "fst (travisPublicKey example_lib net_rsa cold) =
      parsePublicKey example_lib (PublicKey (Webhook (Notifications (configKey.Config ?t))))"
    by blast
  with k parse_rsa have 5: "fst (travisPublicKey example_lib net_rsa cold) = Ok example_key"
    by simp
  from cold_rsa c have "travisPubKey (snd (travisPublicKey example_lib net_rsa cold)) =
        (case fst (travisPublicKey example_lib net_rsa cold) of
           Ok key \<Rightarrow> Some key | Err e \<Rightarrow> None | Panic \<Rightarrow> None)" by blast
  with 5 have 6: "travisPubKey (snd (travisPublicKey example_lib net_rsa cold)) = Some example_key"
    by simp
  from 1 2 3 4 5 6 show ?thesis by blast
qed

lemma scan_ec_body:
  "scanFirst (the (net_ec config_url)) =
     Some (JObject [(''config'', JObject [(''notifications'', JObject [(''webhook'',
             JObject [(''public_key'', JString ''EC PEM'')])])])], [])"
  by (simp add: scan_simps net_ec_def)

lemma decode_ec_body:
  "Option.bind (Decoder_readValue (the (net_ec config_url))) unmarshal_configKey =
     Some (zero_configKey\<lparr>configKey.Config :=
             (configKey.Config zero_configKey)\<lparr>Notifications :=
                \<lparr>Webhook = \<lparr>PublicKey = ''EC PEM''\<rparr>\<rparr>\<rparr>\<rparr>)"
  by (simp add: Decoder_readValue_def scan_ec_body unmarshal_configKey_def storeStruct_def
      configKey_fields_def configKey_Config_fields_def configKey_Notifications_fields_def
      configKey_Webhook_fields_def dfield_def findField_def storeString_def zero_configKey_def
      between_def byte_def char_of_def bit_iff_odd_drop_bit drop_bit_eq_div)

text \<open>
  Claim C4 says that on every failure to parse the key \<^verbatim>\<open>travisPublicKey\<close> returns the
  error and leaves the cache empty. When the configuration holds a \<^verbatim>\<open>PUBLIC KEY\<close> block
  with a key that is not an RSA key, the code does not return an error: the type
  assertion of \<^verbatim>\<open>parsePublicKey\<close> (line 201, claim C1) panics, and the panic leaves
  \<^verbatim>\<open>travisPublicKey\<close> after the request has been made, with the cache still empty.
\<close>

theorem travisPublicKey_panics_on_other_key_type:
  assumes "travisPubKey w = None"
    and "net config_url = Some body"
    and "Option.bind (Decoder_readValue body) unmarshal_configKey = Some t"
    and "pem_Decode L (PublicKey (Webhook (Notifications (configKey.Config t)))) = Some block"
    and "pem_Type block = ''PUBLIC KEY''"
    and "x509_ParsePKIXPublicKey L (pem_Bytes block) = Some publicKey"
    and "\<forall>k. publicKey \<noteq> RSA_PublicKey k"
  shows "travisPublicKey L net w = (Panic, w\<lparr>requested := requested w @ [config_url]\<rparr>)"
proof -
  from assms(4-7)
  have "parsePublicKey L (PublicKey (Webhook (Notifications (configKey.Config t)))) = Panic"
    by (cases publicKey) (simp_all add: parsePublicKey_def)
  with assms(1-3) show ?thesis by (simp add: travisPublicKey_def)
qed

text \<open>An empty cache, and the network that serves the elliptic-curve key.\<close>

theorem travisPublicKey_panics_on_other_key_type_witness:
  "travisPublicKey example_lib net_ec cold =
     (Panic, \<lparr>travisPubKey = None, requested = [config_url]\<rparr>)"
proof -
  let ?t = "zero_configKey\<lparr>configKey.Config :=
              (configKey.Config zero_configKey)\<lparr>Notifications :=
                 \<lparr>Webhook = \<lparr>PublicKey = ''EC PEM''\<rparr>\<rparr>\<rparr>\<rparr>"
  have c: "travisPubKey cold = None" by (simp add: cold_def)
  have b: "net_ec config_url = Some (the (net_ec config_url))" by (simp add: net_ec_def)
  have p: "pem_Decode example_lib (PublicKey (Webhook (Notifications (configKey.Config ?t)))) =
             Some \<lparr>pem_Type = ''PUBLIC KEY'', pem_Bytes = ''EC DER''\<rparr>"
    by (simp add: example_lib_def)
  have x: "x509_ParsePKIXPublicKey example_lib
             (pem_Bytes \<lparr>pem_Type = ''PUBLIC KEY'', pem_Bytes = ''EC DER''\<rparr>) =
             Some (ECDSA_PublicKey ''P-256'')"
    by (simp add: example_lib_def)
  have "travisPublicKey example_lib net_ec cold =
          (Panic, cold\<lparr>requested := requested cold @ [config_url]\<rparr>)"
  proof (rule travisPublicKey_panics_on_other_key_type
      [where body = "the (net_ec config_url)" and t = ?t
         and block = "\<lparr>pem_Type = ''PUBLIC KEY'', pem_Bytes = ''EC DER''\<rparr>"
         and publicKey = "ECDSA_PublicKey ''P-256''"])
    show "travisPubKey cold = None" by (rule c)
    show "net_ec config_url = Some (the (net_ec config_url))" by (rule b)
    show "Option.bind (Decoder_readValue (the (net_ec config_url))) unmarshal_configKey = Some ?t"
      by (rule decode_ec_body)
    show "pem_Decode example_lib (PublicKey (Webhook (Notifications (configKey.Config ?t)))) =
            Some \<lparr>pem_Type = ''PUBLIC KEY'', pem_Bytes = ''EC DER''\<rparr>" by (rule p)
    show "pem_Type \<lparr>pem_Type = ''PUBLIC KEY'', pem_Bytes = ''EC DER''\<rparr> = ''PUBLIC KEY''" by simp
    show "x509_ParsePKIXPublicKey example_lib
            (pem_Bytes \<lparr>pem_Type = ''PUBLIC KEY'', pem_Bytes = ''EC DER''\<rparr>) =
            Some (ECDSA_PublicKey ''P-256'')" by (rule x)
    show "\<forall>k. ECDSA_PublicKey ''P-256'' \<noteq> RSA_PublicKey k" by simp
  qed
  then show ?thesis by (simp add: cold_def)
qed

section \<open>First calls that run at the same time\<close>


lemma travisPublicKey_fetchKey:
  "travisPubKey w = None \<Longrightarrow>
   travisPublicKey L net w =
     (fetchKey L net,
      (case fetchKey L net of
         Ok key \<Rightarrow> w\<lparr>requested := requested w @ [config_url], travisPubKey := Some key\<rparr>
       | Err e \<Rightarrow> w\<lparr>requested := requested w @ [config_url]\<rparr>
       | Panic \<Rightarrow> w\<lparr>requested := requested w @ [config_url]\<rparr>))"
  by (simp add: travisPublicKey_def fetchKey_def Let_def split: option.splits outcome.splits)

lemma one_call_alone:
  "shared (run L net [0, 0, 0, 0] (start 1 w)) = snd (travisPublicKey L net w)
   \<and> places (run L net [0, 0, 0, 0] (start 1 w)) =
       [Returned (returned (fst (travisPublicKey L net w)))]"
proof (cases "travisPubKey w")
  case None
  then show ?thesis
    by (cases "fetchKey L net") (simp_all add: travisPublicKey_fetchKey step_def start_def)
next
  case (Some k)
  then show ?thesis by (simp add: travisPublicKey_def step_def start_def)
qed





lemma writes_read: "writes (c\<lparr>accesses := accesses c @ [(i, ReadVar)]\<rparr>) = writes c"
  by (simp add: writes_def)












section \<open>The failures of GetPayload\<close>







section \<open>Decoding and re-encoding a Payload\<close>

subsection \<open>Any struct whose fields are stored and written independently\<close>
































































end
